theory Spec2Isabelle
  imports Main
begin

section \<open>The Workers proxy: a shallow embedding of \<open>src/index.ts\<close>\<close>

text \<open>
  The worker is one function, \<open>fetch(req)\<close>. It reads the request, may call the
  platform's URL constructor on the target string, may call the platform's global
  \<open>fetch\<close>, and builds one \<open>Response\<close>. Strings are lists of 8-bit characters; header
  names, URL serialisations and the literals of the source are ASCII.
\<close>

subsection \<open>Platform values\<close>

text \<open>The attributes of a \<open>URL\<close> object that the worker reads.\<close>

record url =
  href :: string
  origin :: string
  protocol :: string
  host :: string
  pathname :: string
  search :: string

text \<open>A header list, in order, names in the case they were given.\<close>

type_synonym header_list = "(string \<times> string) list"

text \<open>
  The inbound request. A \<open>Request\<close> holds a parsed URL and \<open>req.url\<close> is its serialisation,
  so \<open>new URL(req.url)\<close> on line 7 gives that URL back: the field \<open>url\<close> is its result.
  \<open>req_headers\<close> is the header list of \<open>req.headers\<close>, as the request came in.
  \<open>req_body\<close> is \<open>None\<close> for \<open>req.body === null\<close>, and the bytes of the stream otherwise.
\<close>

record request =
  req_method :: string
  url :: url
  req_headers :: header_list
  req_body :: "string option"

record response =
  status :: nat
  statusText :: string
  headers :: header_list
  body :: "string option"

text \<open>
  What a \<open>catch\<close> clause can receive: an instance of \<open>Error\<close> with its \<open>message\<close>, or
  any other thrown value.
\<close>

datatype thrown = ErrorInstance string | NotAnError

text \<open>The arguments of the call \<open>fetch(target.href, {method, headers, body, redirect})\<close>.\<close>

record fetch_call =
  input :: string
  fc_method :: string
  fc_headers :: header_list
  fc_body :: "string option"
  fc_redirect :: string

text \<open>
  The platform functions that the worker calls and that are no part of the repository:
  the URL constructor without a base (\<open>None\<close> when it throws its \<open>TypeError\<close>), the
  global \<open>fetch\<close> (\<open>Inl\<close> the value its promise rejects with), and the message of the
  \<open>RangeError\<close> of the \<open>Response\<close> constructor, which the Fetch standard leaves open.
\<close>

record platform =
  new_URL :: "string \<Rightarrow> url option"
  global_fetch :: "fetch_call \<Rightarrow> thrown + response"
  range_error_message :: string

text \<open>The calls that leave the worker, in the order it makes them.\<close>

datatype effect =
    NewURL string
  | Fetch fetch_call
  | ConsoleError string thrown

fun dispatched :: "effect list \<Rightarrow> fetch_call list" where
  "dispatched [] = []"
| "dispatched (Fetch c # es) = c # dispatched es"
| "dispatched (_ # es) = dispatched es"

subsection \<open>Strings\<close>

text \<open>\<open>String.prototype.toLowerCase\<close> on ASCII: the letters A to Z, and nothing else, change.\<close>

definition toLowerCase_char :: "char \<Rightarrow> char" where
  "toLowerCase_char c =
     (case map_of (zip ''ABCDEFGHIJKLMNOPQRSTUVWXYZ'' ''abcdefghijklmnopqrstuvwxyz'') c of
        None \<Rightarrow> c
      | Some l \<Rightarrow> l)"

definition toLowerCase :: "string \<Rightarrow> string" where
  "toLowerCase s = map toLowerCase_char s"

text \<open>\<open>Array.prototype.join\<close> on strings.\<close>

fun join :: "string \<Rightarrow> string list \<Rightarrow> string" where
  "join sep [] = []"
| "join sep [x] = x"
| "join sep (x # y # ys) = x @ sep @ join sep (y # ys)"

subsection \<open>\<open>JSON.stringify\<close> on an object of string properties\<close>

definition hex_digit :: "nat \<Rightarrow> char" where
  "hex_digit n = ''0123456789abcdef'' ! (n mod 16)"

text \<open>
  The escapes of \<open>QuoteJSONString\<close>: the quotation mark (0x22), the backslash (0x5C),
  the five short escapes and \<open>\u00XX\<close> for the other control characters.
\<close>

definition json_escape :: "char \<Rightarrow> string" where
  "json_escape c =
     (let n = (of_char c :: nat) in
      if n = 0x22 then [CHR 0x5C, CHR 0x22]
      else if n = 0x5C then [CHR 0x5C, CHR 0x5C]
      else if n = 0x08 then [CHR 0x5C, CHR ''b'']
      else if n = 0x09 then [CHR 0x5C, CHR ''t'']
      else if n = 0x0A then [CHR 0x5C, CHR ''n'']
      else if n = 0x0C then [CHR 0x5C, CHR ''f'']
      else if n = 0x0D then [CHR 0x5C, CHR ''r'']
      else if n < 0x20 then
        [CHR 0x5C, CHR ''u'', CHR ''0'', CHR ''0'', hex_digit (n div 16), hex_digit (n mod 16)]
      else [c])"

definition json_quote :: "string \<Rightarrow> string" where
  "json_quote s = [CHR 0x22] @ concat (map json_escape s) @ [CHR 0x22]"

definition JSON_stringify :: "(string \<times> string) list \<Rightarrow> string" where
  "JSON_stringify obj =
     ''{'' @ join '','' (map (\<lambda>(k, v). json_quote k @ '':'' @ json_quote v) obj) @ ''}''"

subsection \<open>\<open>Headers\<close>\<close>

text \<open>
  \<open>Headers.prototype.set\<close>: names match byte-case-insensitively; the first header of
  that name takes the value and the others go, and a new name is appended.
\<close>

fun Headers_set :: "string \<Rightarrow> string \<Rightarrow> header_list \<Rightarrow> header_list" where
  "Headers_set name v [] = [(name, v)]"
| "Headers_set name v ((k, w) # hs) =
     (if toLowerCase k = toLowerCase name
      then (k, v) # filter (\<lambda>(k', w'). toLowerCase k' \<noteq> toLowerCase name) hs
      else (k, w) # Headers_set name v hs)"

text \<open>The values stored under a name, and \<open>Headers.prototype.get\<close>, which combines them.\<close>

definition values_of :: "string \<Rightarrow> header_list \<Rightarrow> string list" where
  "values_of name hs = map snd (filter (\<lambda>(k, w). toLowerCase k = toLowerCase name) hs)"

definition Headers_get :: "string \<Rightarrow> header_list \<Rightarrow> string option" where
  "Headers_get name hs =
     (case values_of name hs of [] \<Rightarrow> None | v # vs \<Rightarrow> Some (join '', '' (v # vs)))"

text \<open>
  \<open>Headers.prototype.entries\<close>, the "sort and combine" of the Fetch standard: the names
  in lower case, each once, in ascending order of their codes; under each name the
  combined value of \<open>get\<close>, except that \<open>set-cookie\<close> yields one entry for each of
  its values.
\<close>

fun name_less :: "string \<Rightarrow> string \<Rightarrow> bool" where
  "name_less [] [] = False"
| "name_less [] (y # ys) = True"
| "name_less (x # xs) [] = False"
| "name_less (x # xs) (y # ys) =
     ((of_char x :: nat) < of_char y \<or> (x = y \<and> name_less xs ys))"

fun insert_sorted :: "string \<Rightarrow> string list \<Rightarrow> string list" where
  "insert_sorted n [] = [n]"
| "insert_sorted n (m # ms) = (if name_less n m then n # m # ms else m # insert_sorted n ms)"

definition sorted_names :: "header_list \<Rightarrow> string list" where
  "sorted_names hs = foldr insert_sorted (remdups (map (\<lambda>(k, w). toLowerCase k) hs)) []"

definition Headers_entries :: "header_list \<Rightarrow> header_list" where
  "Headers_entries hs =
     concat (map (\<lambda>name.
                if name = ''set-cookie'' then map (\<lambda>v. (name, v)) (values_of name hs)
                else [(name, join '', '' (values_of name hs))])
             (sorted_names hs))"

subsection \<open>\<open>Response\<close>\<close>

text \<open>
  The first argument of the constructor: a string, whose type is
  \<open>text/plain;charset=UTF-8\<close>, or a stream, which has no type.
\<close>

datatype body_init = BodyText string | BodyStream string

fun body_bytes :: "body_init \<Rightarrow> string" where
  "body_bytes (BodyText s) = s"
| "body_bytes (BodyStream s) = s"

fun body_type :: "body_init \<Rightarrow> string option" where
  "body_type (BodyText s) = Some ''text/plain;charset=UTF-8''"
| "body_type (BodyStream s) = None"

record response_init =
  ri_status :: "nat option"
  ri_statusText :: "string option"
  ri_headers :: header_list

text \<open>
  \<open>new Response(body, init)\<close> after the Fetch standard: a status outside 200 to 599 is a
  \<open>RangeError\<close>; status and status text default to 200 and the empty string; the headers
  of \<open>init\<close> are copied; a body with a type adds \<open>Content-Type\<close> when the headers have none.
  Its two other checks, a status text that is a reason phrase and no body with a
  null-body status, pass on every call of the worker: the literals of the source pass
  them, and so does what \<open>fetch\<close> resolves with.
\<close>

definition new_Response ::
  "platform \<Rightarrow> body_init option \<Rightarrow> response_init \<Rightarrow> thrown + response" where
  "new_Response P b init =
     (let st = (case ri_status init of None \<Rightarrow> 200 | Some n \<Rightarrow> n);
          tx = (case ri_statusText init of None \<Rightarrow> [] | Some t \<Rightarrow> t);
          hs = ri_headers init
      in if st < 200 \<or> 599 < st then Inl (ErrorInstance (range_error_message P))
         else Inr \<lparr>status = st, statusText = tx,
                   headers =
                     (case b of
                        None \<Rightarrow> hs
                      | Some bi \<Rightarrow>
                          (case body_type bi of
                             None \<Rightarrow> hs
                           | Some ty \<Rightarrow>
                               if values_of ''Content-Type'' hs = []
                               then hs @ [(''Content-Type'', ty)] else hs)),
                   body = map_option body_bytes b\<rparr>)"

subsection \<open>The worker\<close>

text \<open>Line 22: the path without its first character, then the query.\<close>

definition targetUrl :: "request \<Rightarrow> string" where
  "targetUrl req = drop 1 (pathname (url req)) @ search (url req)"

definition skipped_headers :: "string list" where
  "skipped_headers =
     [''host'', ''connection'', ''keep-alive'', ''cf-connecting-ip'', ''cf-ray'', ''cf-visitor'']"

text \<open>Lines 76 to 81: the body of the loop, run over the entries it is given.\<close>

fun copy_headers :: "header_list \<Rightarrow> header_list \<Rightarrow> header_list" where
  "copy_headers [] proxyHeaders = proxyHeaders"
| "copy_headers ((key, v) # entries) proxyHeaders =
     copy_headers entries
       (if toLowerCase key \<notin> set skipped_headers
        then Headers_set key v proxyHeaders else proxyHeaders)"

text \<open>Lines 73 to 92: the headers and the arguments of the outbound request.\<close>

definition proxyHeaders :: "request \<Rightarrow> url \<Rightarrow> header_list" where
  "proxyHeaders req target =
     Headers_set ''Host'' (host target) (copy_headers (Headers_entries (req_headers req)) [])"

definition proxy_call :: "request \<Rightarrow> url \<Rightarrow> fetch_call" where
  "proxy_call req target =
     \<lparr>input = href target,
      fc_method = req_method req,
      fc_headers = proxyHeaders req target,
      fc_body = (if req_method req \<noteq> ''GET'' \<and> req_method req \<noteq> ''HEAD'' then req_body req else None),
      fc_redirect = ''follow''\<rparr>"

text \<open>Lines 95 to 104: the headers of the final response.\<close>

definition responseHeaders :: "url \<Rightarrow> header_list \<Rightarrow> header_list" where
  "responseHeaders target upstream =
     Headers_set ''X-Target-URL'' (href target)
       (Headers_set ''X-Proxied-By'' ''Cloudflare-Workers-Proxy''
         (Headers_set ''Access-Control-Allow-Headers'' ''*''
           (Headers_set ''Access-Control-Allow-Methods'' ''GET, POST, PUT, DELETE, PATCH, OPTIONS''
             (Headers_set ''Access-Control-Allow-Origin'' ''*'' upstream))))"

text \<open>
  Lines 72 to 111, the body of the \<open>try\<close>: \<open>Inl\<close> is the value thrown inside it, by the
  rejected \<open>fetch\<close> or by the \<open>Response\<close> constructor.
\<close>

definition try_block :: "platform \<Rightarrow> request \<Rightarrow> url \<Rightarrow> (thrown + response) \<times> effect list" where
  "try_block P req target =
     (case global_fetch P (proxy_call req target) of
        Inl error \<Rightarrow> (Inl error, [Fetch (proxy_call req target)])
      | Inr proxyResponse \<Rightarrow>
          (new_Response P (map_option BodyStream (body proxyResponse))
             \<lparr>ri_status = Some (status proxyResponse),
              ri_statusText = Some (statusText proxyResponse),
              ri_headers = responseHeaders target (headers proxyResponse)\<rparr>,
           [Fetch (proxy_call req target)]))"

text \<open>Line 119.\<close>

fun error_message :: "thrown \<Rightarrow> string" where
  "error_message (ErrorInstance m) = m"
| "error_message NotAnError = ''Failed to proxy request''"

text \<open>
  The handler. The first component is the response, or \<open>Inl\<close> for an exception that
  leaves the handler; the second lists the platform calls it made.
\<close>

definition fetch :: "platform \<Rightarrow> request \<Rightarrow> (thrown + response) \<times> effect list" where
  "fetch P req =
     (if req_method req = ''OPTIONS'' then
        (new_Response P None
           \<lparr>ri_status = None, ri_statusText = None,
            ri_headers =
              [(''Access-Control-Allow-Origin'', ''*''),
               (''Access-Control-Allow-Methods'', ''GET, POST, PUT, DELETE, PATCH, OPTIONS''),
               (''Access-Control-Allow-Headers'', ''*''),
               (''Access-Control-Max-Age'', ''86400'')]\<rparr>,
         [])
      else if targetUrl req = [] then
        (new_Response P (Some (BodyText ''Hello World''))
           \<lparr>ri_status = None, ri_statusText = None,
            ri_headers = [(''Content-Type'', ''text/plain; charset=utf-8'')]\<rparr>,
         [])
      else
        (case new_URL P (targetUrl req) of
           None \<Rightarrow>
             (new_Response P
                (Some (BodyText (JSON_stringify
                   [(''error'', ''Invalid URL''),
                    (''message'', ''Please provide a valid URL to proxy''),
                    (''usage'', origin (url req) @ ''/https://example.com'')])))
                \<lparr>ri_status = Some 400, ri_statusText = None,
                 ri_headers =
                   [(''Content-Type'', ''application/json''),
                    (''Access-Control-Allow-Origin'', ''*'')]\<rparr>,
              [NewURL (targetUrl req)])
         | Some target \<Rightarrow>
             if protocol target \<notin> set [''http:'', ''https:''] then
               (new_Response P
                  (Some (BodyText (JSON_stringify
                     [(''error'', ''Invalid Protocol''),
                      (''message'', ''Only HTTP and HTTPS protocols are supported'')])))
                  \<lparr>ri_status = Some 400, ri_statusText = None,
                   ri_headers =
                     [(''Content-Type'', ''application/json''),
                      (''Access-Control-Allow-Origin'', ''*'')]\<rparr>,
                [NewURL (targetUrl req)])
             else
               (case try_block P req target of
                  (Inr r, fx) \<Rightarrow> (Inr r, NewURL (targetUrl req) # fx)
                | (Inl error, fx) \<Rightarrow>
                    (new_Response P
                       (Some (BodyText (JSON_stringify
                          [(''error'', ''Proxy Error''),
                           (''message'', error_message error),
                           (''target'', href target)])))
                       \<lparr>ri_status = Some 502, ri_statusText = None,
                        ri_headers =
                          [(''Content-Type'', ''application/json''),
                           (''Access-Control-Allow-Origin'', ''*'')]\<rparr>,
                     NewURL (targetUrl req) # fx @ [ConsoleError ''Proxy error:'' error]))))"

subsection \<open>Notions used in the statements\<close>

text \<open>The value that wins when a name repeats in a header list: the last one.\<close>

definition last_value :: "string \<Rightarrow> header_list \<Rightarrow> string option" where
  "last_value name hs =
     (case values_of name hs of [] \<Rightarrow> None | v # vs \<Rightarrow> Some (last (v # vs)))"

text \<open>
  The request passes target resolution: it is no preflight, its target string is not
  empty, the URL constructor accepts it and the protocol is one of the two allowed.
  From there the worker enters its \<open>try\<close> block with \<open>target\<close>.
\<close>

definition resolved :: "platform \<Rightarrow> request \<Rightarrow> url \<Rightarrow> bool" where
  "resolved P req target \<longleftrightarrow>
     req_method req \<noteq> ''OPTIONS'' \<and> targetUrl req \<noteq> [] \<and>
     new_URL P (targetUrl req) = Some target \<and>
     (protocol target = ''http:'' \<or> protocol target = ''https:'')"

text \<open>The names that lines 98 to 104 set on the response, in lower case.\<close>

definition overlay_names :: "string list" where
  "overlay_names =
     [''access-control-allow-origin'', ''access-control-allow-methods'',
      ''access-control-allow-headers'', ''x-proxied-by'', ''x-target-url'']"

text \<open>
  A reader of JSON texts, for what a client finds in a body: it accepts an object whose
  members are strings, written without white space, with the escapes of the JSON grammar
  (\<open>\u00XX\<close> for a code below 256), and returns the members in order; it rejects
  everything else, as a raw control character in a string.
\<close>

definition hex_value :: "char \<Rightarrow> nat option" where
  "hex_value c =
     map_of
       [(CHR ''0'', 0), (CHR ''1'', 1), (CHR ''2'', 2), (CHR ''3'', 3), (CHR ''4'', 4),
        (CHR ''5'', 5), (CHR ''6'', 6), (CHR ''7'', 7), (CHR ''8'', 8), (CHR ''9'', 9),
        (CHR ''a'', 10), (CHR ''b'', 11), (CHR ''c'', 12), (CHR ''d'', 13), (CHR ''e'', 14),
        (CHR ''f'', 15), (CHR ''A'', 10), (CHR ''B'', 11), (CHR ''C'', 12), (CHR ''D'', 13),
        (CHR ''E'', 14), (CHR ''F'', 15)] c"

definition unescape :: "char \<Rightarrow> char option" where
  "unescape e =
     map_of
       [(CHR 0x22, CHR 0x22), (CHR 0x5C, CHR 0x5C), (CHR ''/'', CHR ''/''),
        (CHR ''b'', CHR 0x08), (CHR ''t'', CHR 0x09), (CHR ''n'', CHR 0x0A),
        (CHR ''f'', CHR 0x0C), (CHR ''r'', CHR 0x0D)] e"

text \<open>The string that follows an opening quotation mark, and the text after its end.\<close>

fun unquote :: "string \<Rightarrow> (string \<times> string) option" where
  "unquote [] = None"
| "unquote (c # cs) =
     (if c = CHR 0x22 then Some ([], cs)
      else if c = CHR 0x5C then
        (case cs of
           [] \<Rightarrow> None
         | e # es \<Rightarrow>
             if e = CHR ''u'' then
               (case es of
                  a # b # x # y # r \<Rightarrow>
                    (case (a = CHR ''0'' \<and> b = CHR ''0'', hex_value x, hex_value y) of
                       (True, Some h, Some l) \<Rightarrow>
                         map_option (\<lambda>(s, t). (char_of (16 * h + l) # s, t)) (unquote r)
                     | _ \<Rightarrow> None)
                | _ \<Rightarrow> None)
             else
               (case unescape e of
                  None \<Rightarrow> None
                | Some d \<Rightarrow> map_option (\<lambda>(s, t). (d # s, t)) (unquote es)))
      else if (of_char c :: nat) < 0x20 then None
      else map_option (\<lambda>(s, t). (c # s, t)) (unquote cs))"

text \<open>The members up to the closing brace, from the quotation mark of the first name.\<close>

function members :: "string \<Rightarrow> (string \<times> string) list option" where
  "members s =
     (case s of
        [] \<Rightarrow> None
      | q # s1 \<Rightarrow>
          if q \<noteq> CHR 0x22 then None
          else
            (case unquote s1 of
               None \<Rightarrow> None
             | Some (k, s2) \<Rightarrow>
                 (case s2 of
                    col # q2 # s3 \<Rightarrow>
                      if col \<noteq> CHR '':'' \<or> q2 \<noteq> CHR 0x22 then None
                      else
                        (case unquote s3 of
                           None \<Rightarrow> None
                         | Some (v, s4) \<Rightarrow>
                             (case s4 of
                                [] \<Rightarrow> None
                              | e # s5 \<Rightarrow>
                                  if e = CHR ''}'' then (if s5 = [] then Some [(k, v)] else None)
                                  else if e = CHR '','' then map_option ((#) (k, v)) (members s5)
                                  else None))
                  | _ \<Rightarrow> None)))"
  by pat_completeness auto
termination
proof (relation "measure length")
  show "wf (measure length)" by simp
next
  fix s q s1 x2 k s2 col list q2 s3 x2a v s4 e s5
  assume ctx: "s = q # s1" "unquote s1 = Some x2" "(k, s2) = x2" "s2 = col # list"
    "list = q2 # s3" "unquote s3 = Some x2a" "(v, s4) = x2a" "s4 = e # s5"
  have shorter: "length r < length u" if "unquote u = Some (t, r)" for u t r
    using that
  proof (induction "length u" arbitrary: u t r rule: less_induct)
    case less
    show ?case
    proof (cases u)
      case Nil
      with less.prems show ?thesis by simp
    next
      case (Cons c cs)
      have IH: "length r' < length u'" if "unquote u' = Some (t', r')" and "length u' < length u"
        for u' t' r'
        using less.hyps [OF that(2) that(1)] .
      from less.prems Cons show ?thesis
        by (auto split: if_splits list.splits option.splits bool.splits dest!: IH)
    qed
  qed
  from ctx have "length s2 < length s1" "length s4 < length s3"
    using shorter [of s1 k s2] shorter [of s3 v s4] by auto
  with ctx show "(s5, s) \<in> measure length" by simp
qed

definition JSON_parse :: "string \<Rightarrow> (string \<times> string) list option" where
  "JSON_parse s =
     (case s of
        [] \<Rightarrow> None
      | b # rest \<Rightarrow>
          if b \<noteq> CHR ''{'' then None
          else if rest = ''}'' then Some []
          else members rest)"

text \<open>
  The body of the response of a run, the object a client reads from it, and whether
  that object has a usage hint or a target among its members.
\<close>

definition response_body :: "(thrown + response) \<times> effect list \<Rightarrow> string option" where
  "response_body out = (case fst out of Inl e \<Rightarrow> None | Inr r \<Rightarrow> body r)"

definition payload :: "(thrown + response) \<times> effect list \<Rightarrow> (string \<times> string) list option" where
  "payload out = (case response_body out of None \<Rightarrow> None | Some s \<Rightarrow> JSON_parse s)"

definition has_context_field :: "(string \<times> string) list \<Rightarrow> bool" where
  "has_context_field obj \<longleftrightarrow> ''usage'' \<in> set (map fst obj) \<or> ''target'' \<in> set (map fst obj)"

definition carries_context_field :: "(thrown + response) \<times> effect list \<Rightarrow> bool" where
  "carries_context_field out =
     (case payload out of None \<Rightarrow> False | Some obj \<Rightarrow> has_context_field obj)"

subsection \<open>A sample platform\<close>

text \<open>
  Concrete inputs for the examples below. The worker is deployed at
  \<open>https://my-proxy.workers.dev\<close>; \<open>worker_url p q\<close> is the URL of a request for path
  \<open>p\<close> and query \<open>q\<close>.
\<close>

definition worker_url :: "string \<Rightarrow> string \<Rightarrow> url" where
  "worker_url p q =
     \<lparr>href = ''https://my-proxy.workers.dev'' @ p @ q,
      origin = ''https://my-proxy.workers.dev'',
      protocol = ''https:'',
      host = ''my-proxy.workers.dev'',
      pathname = p,
      search = q\<rparr>"

definition sample_request ::
  "string \<Rightarrow> string \<Rightarrow> string \<Rightarrow> header_list \<Rightarrow> string option \<Rightarrow> request" where
  "sample_request m p q hs b = \<lparr>req_method = m, url = worker_url p q, req_headers = hs, req_body = b\<rparr>"

definition https_url :: "string \<Rightarrow> string \<Rightarrow> string \<Rightarrow> url" where
  "https_url h p q =
     \<lparr>href = ''https://'' @ h @ p @ q, origin = ''https://'' @ h, protocol = ''https:'',
      host = h, pathname = p, search = q\<rparr>"

text \<open>
  The URL constructor on the target strings of the examples. The strings \<open>not-a-url\<close>
  and \<open>?x=1\<close> of the examples have no scheme, so the constructor, called without a
  base, throws on them; the table gives \<open>None\<close> for them as for every string it does
  not list.
\<close>

definition sample_new_URL :: "string \<Rightarrow> url option" where
  "sample_new_URL s =
     (if s = ''https://api.example.com/users/42?x=1'' then
        Some (https_url ''api.example.com'' ''/users/42'' ''?x=1'')
      else if s = ''https://www.example.org/rate-limited'' then
        Some (https_url ''www.example.org'' ''/rate-limited'' '''')
      else if s = ''https://unreachable.invalid/'' then
        Some (https_url ''unreachable.invalid'' ''/'' '''')
      else if s = ''ftp://example.com/file.txt'' then
        Some \<lparr>href = ''ftp://example.com/file.txt'', origin = ''ftp://example.com'',
              protocol = ''ftp:'', host = ''example.com'',
              pathname = ''/file.txt'', search = ''''\<rparr>
      else None)"

text \<open>
  The network of the examples: one origin answers 200, one answers with the status 999,
  and every other host is unreachable.
\<close>

definition sample_fetch :: "fetch_call \<Rightarrow> thrown + response" where
  "sample_fetch c =
     (if input c = ''https://api.example.com/users/42?x=1'' then
        Inr \<lparr>status = 200, statusText = ''OK'',
             headers = [(''Content-Type'', ''application/json''),
                        (''Access-Control-Allow-Origin'', ''https://app.example.com''),
                        (''Set-Cookie'', ''a=1''), (''Set-Cookie'', ''b=2'')],
             body = Some ''[42]''\<rparr>
      else if input c = ''https://www.example.org/rate-limited'' then
        Inr \<lparr>status = 999, statusText = ''Request denied'',
             headers = [(''Content-Type'', ''text/plain'')],
             body = Some ''denied''\<rparr>
      else Inl (ErrorInstance ''Network connection lost.''))"

definition sample_platform :: platform where
  "sample_platform =
     \<lparr>new_URL = sample_new_URL, global_fetch = sample_fetch,
      range_error_message =
        ''Responses may only be constructed with status codes in the range 200 to 599, inclusive.''\<rparr>"

section \<open>Properties\<close>

subsection \<open>Header lists\<close>

lemma values_of_Cons:
  "values_of n ((k, w) # hs) =
     (if toLowerCase k = toLowerCase n then w # values_of n hs else values_of n hs)"
  by (simp add: values_of_def)

lemma values_of_Nil: "values_of n [] = []"
  by (simp add: values_of_def)

lemma values_of_drop_other:
  "toLowerCase n \<noteq> toLowerCase name \<Longrightarrow>
   values_of n (filter (\<lambda>(k', w'). toLowerCase k' \<noteq> toLowerCase name) hs) = values_of n hs"
  by (induction hs) (auto simp: values_of_def)

lemma values_of_drop_same:
  "toLowerCase n = toLowerCase name \<Longrightarrow>
   values_of n (filter (\<lambda>(k', w'). toLowerCase k' \<noteq> toLowerCase name) hs) = []"
  by (induction hs) (auto simp: values_of_def)

lemma values_of_set_same:
  "toLowerCase n = toLowerCase name \<Longrightarrow> values_of n (Headers_set name v hs) = [v]"
  by (induction hs) (auto simp: values_of_Cons values_of_Nil values_of_drop_same)

lemma values_of_set_other:
  "toLowerCase n \<noteq> toLowerCase name \<Longrightarrow> values_of n (Headers_set name v hs) = values_of n hs"
  by (induction hs) (auto simp: values_of_Cons values_of_Nil values_of_drop_other)

lemma values_of_set:
  "values_of n (Headers_set name v hs) =
     (if toLowerCase n = toLowerCase name then [v] else values_of n hs)"
  by (simp add: values_of_set_same values_of_set_other)

text \<open>The loop of lines 76 to 81, for any header list it starts from.\<close>

lemma values_of_copy_headers:
  "values_of n (copy_headers es ph) =
     (if toLowerCase n \<in> set skipped_headers then values_of n ph
      else case values_of n es of [] \<Rightarrow> values_of n ph | v # vs \<Rightarrow> [last (v # vs)])"
proof (induction es arbitrary: ph)
  case Nil
  then show ?case by (simp add: values_of_Nil)
next
  case (Cons e es)
  obtain key v where e: "e = (key, v)" by (cases e)
  show ?case
    unfolding e copy_headers.simps Cons.IH
    by (auto simp: values_of_Cons values_of_set split: list.splits)
qed

lemma lower_Host: "toLowerCase ''Host'' = ''host''"
  by (simp add: toLowerCase_def toLowerCase_char_def)

text \<open>The iteration of a header list: what it yields under each name.\<close>

lemma toLowerCase_char_idem: "toLowerCase_char (toLowerCase_char c) = toLowerCase_char c"
  by (simp add: toLowerCase_char_def)

lemma toLowerCase_idem: "toLowerCase (toLowerCase s) = toLowerCase s"
  by (simp add: toLowerCase_def toLowerCase_char_idem)

lemma values_of_lower: "values_of (toLowerCase n) hs = values_of n hs"
  by (simp add: values_of_def toLowerCase_idem)

lemma set_insert_sorted: "set (insert_sorted n ms) = insert n (set ms)"
  by (induction ms) auto

lemma distinct_insert_sorted: "distinct (insert_sorted n ms) \<longleftrightarrow> n \<notin> set ms \<and> distinct ms"
  by (induction ms) (auto simp: set_insert_sorted)

lemma foldr_insert_sorted:
  "distinct ns \<Longrightarrow> distinct (foldr insert_sorted ns []) \<and> set (foldr insert_sorted ns []) = set ns"
  by (induction ns) (auto simp: set_insert_sorted distinct_insert_sorted)

lemma distinct_sorted_names: "distinct (sorted_names hs)"
  by (simp add: sorted_names_def foldr_insert_sorted)

lemma set_sorted_names: "set (sorted_names hs) = (\<lambda>(k, w). toLowerCase k) ` set hs"
  by (simp add: sorted_names_def foldr_insert_sorted)

lemma sorted_names_lower: "m \<in> set (sorted_names hs) \<Longrightarrow> toLowerCase m = m"
  by (auto simp: set_sorted_names toLowerCase_idem)

lemma values_of_empty_iff: "values_of n hs = [] \<longleftrightarrow> toLowerCase n \<notin> set (sorted_names hs)"
  by (auto simp: set_sorted_names values_of_def filter_empty_conv image_iff)

lemma values_of_append: "values_of n (xs @ ys) = values_of n xs @ values_of n ys"
  by (simp add: values_of_def)

lemma values_of_concat: "values_of n (concat xss) = concat (map (values_of n) xss)"
  by (induction xss) (simp_all add: values_of_append values_of_def)

lemma concat_single:
  "distinct ns \<Longrightarrow> (\<And>m. m \<in> set ns \<Longrightarrow> m \<noteq> a \<Longrightarrow> g m = []) \<Longrightarrow>
   concat (map g ns) = (if a \<in> set ns then g a else [])"
  by (induction ns) auto

lemma values_of_pairs: "values_of n (map (\<lambda>v. (m, v)) vs) = (if toLowerCase m = toLowerCase n then vs else [])"
  by (induction vs) (auto simp: values_of_def)

lemma values_of_Headers_entries:
  "values_of n (Headers_entries hs) =
     (if values_of n hs = [] then []
      else if toLowerCase n = ''set-cookie'' then values_of n hs
      else [join '', '' (values_of n hs)])"
proof -
  let ?f = "\<lambda>name. if name = ''set-cookie'' then map (\<lambda>v. (name, v)) (values_of name hs)
                else [(name, join '', '' (values_of name hs))]"
  let ?g = "\<lambda>m. values_of n (?f m)"
  have other: "?g m = []" if "m \<in> set (sorted_names hs)" and "m \<noteq> toLowerCase n" for m
    using that sorted_names_lower [OF that(1)]
    by (auto simp: values_of_pairs) (auto simp: values_of_def)
  have "values_of n (Headers_entries hs) = concat (map ?g (sorted_names hs))"
    by (simp add: Headers_entries_def values_of_concat comp_def)
  also have "\<dots> = (if toLowerCase n \<in> set (sorted_names hs) then ?g (toLowerCase n) else [])"
    using concat_single [OF distinct_sorted_names, where a = "toLowerCase n" and g = ?g] other by blast
  also have "\<dots> = (if values_of n hs = [] then []
      else if toLowerCase n = ''set-cookie'' then values_of n hs
      else [join '', '' (values_of n hs)])"
  proof (cases "toLowerCase n \<in> set (sorted_names hs)")
    case False
    then show ?thesis by (simp add: values_of_empty_iff)
  next
    case True
    have single: "values_of n [(toLowerCase n, x)] = [x]" for x
      by (simp add: values_of_def toLowerCase_idem)
    have lsc: "toLowerCase ''set-cookie'' = ''set-cookie''" by code_simp
    have sc: "values_of ''set-cookie'' hs = values_of n hs" if "toLowerCase n = ''set-cookie''"
      using values_of_lower [of n hs] that by simp
    from True show ?thesis
      by (simp add: values_of_empty_iff values_of_pairs values_of_lower toLowerCase_idem single lsc sc)
  qed
  finally show ?thesis .
qed

lemma values_of_proxyHeaders:
  "values_of n (proxyHeaders req target) =
     (if toLowerCase n = ''host'' then [host target]
      else if toLowerCase n \<in> set skipped_headers then []
      else if values_of n (req_headers req) = [] then []
      else if toLowerCase n = ''set-cookie'' then [last (values_of n (req_headers req))]
      else [join '', '' (values_of n (req_headers req))])"
  by (simp add: proxyHeaders_def values_of_set lower_Host values_of_copy_headers
        values_of_Nil values_of_Headers_entries split: list.splits)

text \<open>Setting a name of a set \<open>S\<close> leaves the headers outside \<open>S\<close> as they are.\<close>

lemma filter_Headers_set:
  "toLowerCase name \<in> S \<Longrightarrow>
   filter (\<lambda>(k, w). toLowerCase k \<notin> S) (Headers_set name v hs) =
   filter (\<lambda>(k, w). toLowerCase k \<notin> S) hs"
proof (induction hs)
  case Nil
  then show ?case by simp
next
  case (Cons p hs)
  obtain k w where p: "p = (k, w)" by (cases p)
  have drop: "filter (\<lambda>(k, w). toLowerCase k \<notin> S)
          (filter (\<lambda>(k', w'). toLowerCase k' \<noteq> toLowerCase name) hs) =
        filter (\<lambda>(k, w). toLowerCase k \<notin> S) hs"
    using Cons.prems by (auto simp: filter_filter intro!: filter_cong)
  show ?case using Cons p drop by auto
qed

lemma lower_overlay:
  "toLowerCase ''Access-Control-Allow-Origin'' = ''access-control-allow-origin''"
  "toLowerCase ''Access-Control-Allow-Methods'' = ''access-control-allow-methods''"
  "toLowerCase ''Access-Control-Allow-Headers'' = ''access-control-allow-headers''"
  "toLowerCase ''X-Proxied-By'' = ''x-proxied-by''"
  "toLowerCase ''X-Target-URL'' = ''x-target-url''"
  by code_simp+

lemma values_of_responseHeaders:
  "values_of ''Access-Control-Allow-Origin'' (responseHeaders target hs) = [''*'']"
  "values_of ''Access-Control-Allow-Methods'' (responseHeaders target hs) =
     [''GET, POST, PUT, DELETE, PATCH, OPTIONS'']"
  "values_of ''Access-Control-Allow-Headers'' (responseHeaders target hs) = [''*'']"
  "values_of ''X-Proxied-By'' (responseHeaders target hs) = [''Cloudflare-Workers-Proxy'']"
  "values_of ''X-Target-URL'' (responseHeaders target hs) = [href target]"
  by (simp_all add: responseHeaders_def values_of_set lower_overlay)

lemma kept_responseHeaders:
  "filter (\<lambda>(k, w). toLowerCase k \<notin> set overlay_names) (responseHeaders target hs) =
   filter (\<lambda>(k, w). toLowerCase k \<notin> set overlay_names) hs"
proof -
  have names:
    "toLowerCase ''Access-Control-Allow-Origin'' \<in> set overlay_names"
    "toLowerCase ''Access-Control-Allow-Methods'' \<in> set overlay_names"
    "toLowerCase ''Access-Control-Allow-Headers'' \<in> set overlay_names"
    "toLowerCase ''X-Proxied-By'' \<in> set overlay_names"
    "toLowerCase ''X-Target-URL'' \<in> set overlay_names"
    by (simp_all add: overlay_names_def lower_overlay)
  show ?thesis
    unfolding responseHeaders_def
    by (simp only: filter_Headers_set [OF names(1)] filter_Headers_set [OF names(2)]
          filter_Headers_set [OF names(3)] filter_Headers_set [OF names(4)]
          filter_Headers_set [OF names(5)])
qed

subsection \<open>Reading back what \<open>JSON.stringify\<close> writes\<close>

lemma char_of_code: "(of_char c :: nat) = n \<Longrightarrow> c = char_of n"
  using char_of_char [of c, where ?'a = nat] by simp

lemma hex_value_digit: "k < 16 \<Longrightarrow> hex_value (hex_digit k) = Some k"
proof -
  have "\<forall>k \<in> set [0..<16]. hex_value (hex_digit k) = Some k" by code_simp
  then show "k < 16 \<Longrightarrow> hex_value (hex_digit k) = Some k" by simp
qed

lemma control_chars:
  "char_of (0x22 :: nat) = CHR 0x22" "char_of (0x5C :: nat) = CHR 0x5C"
  "char_of (0x08 :: nat) = CHR 0x08" "char_of (0x09 :: nat) = CHR 0x09"
  "char_of (0x0A :: nat) = CHR 0x0A" "char_of (0x0C :: nat) = CHR 0x0C"
  "char_of (0x0D :: nat) = CHR 0x0D"
  by code_simp+

lemma unescape_values:
  "unescape (CHR 0x22) = Some (CHR 0x22)" "unescape (CHR 0x5C) = Some (CHR 0x5C)"
  "unescape (CHR ''b'') = Some (CHR 0x08)" "unescape (CHR ''t'') = Some (CHR 0x09)"
  "unescape (CHR ''n'') = Some (CHR 0x0A)" "unescape (CHR ''f'') = Some (CHR 0x0C)"
  "unescape (CHR ''r'') = Some (CHR 0x0D)"
  by (simp_all add: unescape_def)

lemma unquote_escape:
  "unquote (json_escape c @ rest) = map_option (\<lambda>(s, t). (c # s, t)) (unquote rest)"
proof -
  let ?n = "of_char c :: nat"
  consider (special) "?n = 0x22 \<or> ?n = 0x5C \<or> ?n = 0x08 \<or> ?n = 0x09 \<or> ?n = 0x0A \<or> ?n = 0x0C \<or> ?n = 0x0D"
    | (control) "?n < 0x20" "?n \<noteq> 0x08" "?n \<noteq> 0x09" "?n \<noteq> 0x0A" "?n \<noteq> 0x0C" "?n \<noteq> 0x0D"
    | (plain) "\<not> ?n < 0x20" "?n \<noteq> 0x22" "?n \<noteq> 0x5C"
    by linarith
  then show ?thesis
  proof cases
    case special
    then show ?thesis
      by (auto simp: json_escape_def unescape_values dest!: char_of_code simp: control_chars)
  next
    case control
    have esc: "json_escape c =
        [CHR 0x5C, CHR ''u'', CHR ''0'', CHR ''0'', hex_digit (?n div 16), hex_digit (?n mod 16)]"
      using control by (simp add: json_escape_def Let_def)
    have hv: "hex_value (hex_digit (?n div 16)) = Some (?n div 16)"
        "hex_value (hex_digit (?n mod 16)) = Some (?n mod 16)"
      using control by (simp_all add: hex_value_digit)
    have c: "char_of (16 * (?n div 16) + ?n mod 16) = c"
      using char_of_char [of c, where ?'a = nat] by simp
    show ?thesis
      by (simp add: esc hv c del: mult_div_mod_eq)
  next
    case plain
    then have "c \<noteq> CHR 0x22" "c \<noteq> CHR 0x5C" by auto
    with plain show ?thesis by (simp add: json_escape_def)
  qed
qed

lemma unquote_escaped:
  "unquote (concat (map json_escape s) @ CHR 0x22 # rest) = Some (s, rest)"
  by (induction s) (simp_all add: unquote_escape del: unquote.simps, simp)

lemma members_one:
  "members (json_quote k @ '':'' @ json_quote v @ e # rest) =
     (if e = CHR ''}'' then (if rest = [] then Some [(k, v)] else None)
      else if e = CHR '','' then map_option ((#) (k, v)) (members rest)
      else None)"
  by (subst members.simps) (simp add: json_quote_def unquote_escaped)

lemma members_join:
  "members (join '','' (map (\<lambda>(k, v). json_quote k @ '':'' @ json_quote v) (p # ps)) @ ''}'') =
     Some (p # ps)"
proof (induction ps arbitrary: p)
  case Nil
  obtain k v where "p = (k, v)" by (cases p)
  then show ?case using members_one [of k v "CHR ''}''" "[]"] by simp
next
  case (Cons q qs)
  obtain k v where p: "p = (k, v)" by (cases p)
  have "members (json_quote k @ '':'' @ json_quote v @ CHR '','' #
          (join '','' (map (\<lambda>(k, v). json_quote k @ '':'' @ json_quote v) (q # qs)) @ ''}'')) =
        Some ((k, v) # q # qs)"
    by (simp only: members_one Cons.IH) simp
  then show ?case by (simp add: p)
qed

lemma JSON_parse_stringify: "JSON_parse (JSON_stringify obj) = Some obj"
proof (cases obj)
  case Nil
  then show ?thesis by (simp add: JSON_parse_def JSON_stringify_def)
next
  case (Cons p ps)
  obtain k v where p: "p = (k, v)" by (cases p)
  have "join '','' (map (\<lambda>(k, v). json_quote k @ '':'' @ json_quote v) (p # ps)) @ ''}'' \<noteq> ''}''"
    by (cases ps) (simp_all add: p json_quote_def)
  then show ?thesis
    using members_join [of p ps] by (simp add: JSON_parse_def JSON_stringify_def Cons)
qed

subsection \<open>The branches of the handler\<close>

lemmas sample_defs =
  sample_platform_def sample_new_URL_def sample_fetch_def sample_request_def worker_url_def
  https_url_def targetUrl_def

lemmas string_defs =
  toLowerCase_def toLowerCase_char_def

lemma new_Response_json:
  "new_Response P (Some (BodyText s))
     \<lparr>ri_status = Some n, ri_statusText = None,
      ri_headers = [(''Content-Type'', ''application/json''), (''Access-Control-Allow-Origin'', ''*'')]\<rparr> =
   (if n < 200 \<or> 599 < n then Inl (ErrorInstance (range_error_message P))
    else Inr \<lparr>status = n, statusText = [],
         headers = [(''Content-Type'', ''application/json''), (''Access-Control-Allow-Origin'', ''*'')],
         body = Some s\<rparr>)"
  by (simp add: new_Response_def values_of_def string_defs)

lemma fetch_resolved:
  assumes "resolved P req target"
  shows "fetch P req =
     (case try_block P req target of
        (Inr r, fx) \<Rightarrow> (Inr r, NewURL (targetUrl req) # fx)
      | (Inl error, fx) \<Rightarrow>
          (new_Response P
             (Some (BodyText (JSON_stringify
                [(''error'', ''Proxy Error''),
                 (''message'', error_message error),
                 (''target'', href target)])))
             \<lparr>ri_status = Some 502, ri_statusText = None,
              ri_headers =
                [(''Content-Type'', ''application/json''),
                 (''Access-Control-Allow-Origin'', ''*'')]\<rparr>,
           NewURL (targetUrl req) # fx @ [ConsoleError ''Proxy error:'' error]))"
  using assms unfolding resolved_def fetch_def by auto

lemma try_block_rejected:
  "global_fetch P (proxy_call req target) = Inl e \<Longrightarrow>
   try_block P req target = (Inl e, [Fetch (proxy_call req target)])"
  by (simp add: try_block_def)

lemma try_block_resolved:
  "global_fetch P (proxy_call req target) = Inr up \<Longrightarrow>
   try_block P req target =
     (if status up < 200 \<or> 599 < status up then Inl (ErrorInstance (range_error_message P))
      else Inr \<lparr>status = status up, statusText = statusText up,
                headers = responseHeaders target (headers up), body = body up\<rparr>,
      [Fetch (proxy_call req target)])"
  by (cases "body up") (simp_all add: try_block_def new_Response_def)

lemma dispatched_resolved:
  assumes "resolved P req target"
  shows "dispatched (snd (fetch P req)) = [proxy_call req target]"
proof (cases "global_fetch P (proxy_call req target)")
  case (Inl e)
  then show ?thesis
    by (simp add: fetch_resolved [OF assms] try_block_rejected)
next
  case (Inr up)
  then show ?thesis
    by (simp add: fetch_resolved [OF assms] try_block_resolved)
qed

text \<open>A body written by \<open>JSON.stringify\<close> reads back as the object it was written from.\<close>

lemma payload_json:
  "fst out = Inr r \<Longrightarrow> body r = Some (JSON_stringify obj) \<Longrightarrow> payload out = Some obj"
  by (simp add: payload_def response_body_def JSON_parse_stringify)

lemma invalid_protocol_bytes:
  \<open>JSON_stringify
      [(''error'', ''Invalid Protocol''),
       (''message'', ''Only HTTP and HTTPS protocols are supported'')] =
    ''{"error":"Invalid Protocol","message":"Only HTTP and HTTPS protocols are supported"}''\<close>
  by code_simp

subsection \<open>The claims\<close>

text \<open>
  C1, amended. When the request passes target resolution and the outbound \<open>fetch\<close>
  resolves with an upstream response whose status is between 200 and 599, the final
  response has the upstream status, status text and body; its headers are the upstream
  headers with the five names of lines 98 to 104 set: every upstream header of another
  name is kept, in order, and each of the five names has exactly the value
  \<open>*\<close>, the method list, \<open>*\<close>, \<open>Cloudflare-Workers-Proxy\<close> and the href of the target.
\<close>

theorem proxied_response:
  assumes "resolved P req target"
    and "global_fetch P (proxy_call req target) = Inr up"
    and "200 \<le> status up" and "status up \<le> 599"
  shows "fst (fetch P req) =
       Inr \<lparr>status = status up, statusText = statusText up,
            headers = responseHeaders target (headers up), body = body up\<rparr> \<and>
     filter (\<lambda>(k, w). toLowerCase k \<notin> set overlay_names) (responseHeaders target (headers up)) =
       filter (\<lambda>(k, w). toLowerCase k \<notin> set overlay_names) (headers up) \<and>
     values_of ''Access-Control-Allow-Origin'' (responseHeaders target (headers up)) = [''*''] \<and>
     values_of ''Access-Control-Allow-Methods'' (responseHeaders target (headers up)) =
       [''GET, POST, PUT, DELETE, PATCH, OPTIONS''] \<and>
     values_of ''Access-Control-Allow-Headers'' (responseHeaders target (headers up)) = [''*''] \<and>
     values_of ''X-Proxied-By'' (responseHeaders target (headers up)) = [''Cloudflare-Workers-Proxy''] \<and>
     values_of ''X-Target-URL'' (responseHeaders target (headers up)) = [href target]"
proof -
  have "fst (fetch P req) =
       Inr \<lparr>status = status up, statusText = statusText up,
            headers = responseHeaders target (headers up), body = body up\<rparr>"
    using assms(3,4)
    by (simp add: fetch_resolved [OF assms(1)] try_block_resolved [OF assms(2)])
  then show ?thesis
    by (simp add: values_of_responseHeaders kept_responseHeaders)
qed

text \<open>The run of the end-to-end scenario of the specification, with an upstream that
  sets its own \<open>Access-Control-Allow-Origin\<close> and two cookies.\<close>

theorem proxied_response_witness:
  "resolved sample_platform
     (sample_request ''GET'' ''/https://api.example.com/users/42'' ''?x=1'' [(''accept'', ''application/json'')] None)
     (https_url ''api.example.com'' ''/users/42'' ''?x=1'') \<and>
   fst (fetch sample_platform
     (sample_request ''GET'' ''/https://api.example.com/users/42'' ''?x=1'' [(''accept'', ''application/json'')] None)) =
     Inr \<lparr>status = 200, statusText = ''OK'',
          headers =
            [(''Content-Type'', ''application/json''),
             (''Access-Control-Allow-Origin'', ''*''),
             (''Set-Cookie'', ''a=1''), (''Set-Cookie'', ''b=2''),
             (''Access-Control-Allow-Methods'', ''GET, POST, PUT, DELETE, PATCH, OPTIONS''),
             (''Access-Control-Allow-Headers'', ''*''),
             (''X-Proxied-By'', ''Cloudflare-Workers-Proxy''),
             (''X-Target-URL'', ''https://api.example.com/users/42?x=1'')],
          body = Some ''[42]''\<rparr>"
proof -
  let ?r = "sample_request ''GET'' ''/https://api.example.com/users/42'' ''?x=1'' [(''accept'', ''application/json'')] None"
  let ?t = "https_url ''api.example.com'' ''/users/42'' ''?x=1''"
  let ?up = "\<lparr>status = 200, statusText = ''OK'',
             headers = [(''Content-Type'', ''application/json''),
                        (''Access-Control-Allow-Origin'', ''https://app.example.com''),
                        (''Set-Cookie'', ''a=1''), (''Set-Cookie'', ''b=2'')],
             body = Some ''[42]''\<rparr>"
  have h1: "resolved sample_platform ?r ?t" by code_simp
  have h2: "global_fetch sample_platform (proxy_call ?r ?t) = Inr ?up" by code_simp
  have h3: "200 \<le> status ?up" and h4: "status ?up \<le> 599" by simp_all
  have e: "responseHeaders ?t (headers ?up) =
            [(''Content-Type'', ''application/json''),
             (''Access-Control-Allow-Origin'', ''*''),
             (''Set-Cookie'', ''a=1''), (''Set-Cookie'', ''b=2''),
             (''Access-Control-Allow-Methods'', ''GET, POST, PUT, DELETE, PATCH, OPTIONS''),
             (''Access-Control-Allow-Headers'', ''*''),
             (''X-Proxied-By'', ''Cloudflare-Workers-Proxy''),
             (''X-Target-URL'', ''https://api.example.com/users/42?x=1'')]"
    by code_simp
  from proxied_response [OF h1 h2 h3 h4]
  have "fst (fetch sample_platform ?r) =
       Inr \<lparr>status = status ?up, statusText = statusText ?up,
            headers = responseHeaders ?t (headers ?up), body = body ?up\<rparr>"
    by (rule conjunct1)
  with e h1 show ?thesis by simp
qed

text \<open>
  C1 as stated fails: the dispatch succeeds with the upstream status 999, the \<open>Response\<close>
  constructor on line 107 rejects that status inside the \<open>try\<close>, and the \<open>catch\<close>
  answers 502 instead of preserving the upstream status, headers and body.
\<close>

theorem upstream_status_counterexample:
  "resolved sample_platform
     (sample_request ''GET'' ''/https://www.example.org/rate-limited'' '''' [] None)
     (https_url ''www.example.org'' ''/rate-limited'' '''') \<and>
   global_fetch sample_platform
     (proxy_call (sample_request ''GET'' ''/https://www.example.org/rate-limited'' '''' [] None)
        (https_url ''www.example.org'' ''/rate-limited'' '''')) =
     Inr \<lparr>status = 999, statusText = ''Request denied'',
          headers = [(''Content-Type'', ''text/plain'')], body = Some ''denied''\<rparr> \<and>
   fst (fetch sample_platform
          (sample_request ''GET'' ''/https://www.example.org/rate-limited'' '''' [] None)) =
     Inr \<lparr>status = 502, statusText = '''',
          headers = [(''Content-Type'', ''application/json''), (''Access-Control-Allow-Origin'', ''*'')],
          body = Some (JSON_stringify
                   [(''error'', ''Proxy Error''),
                    (''message'', ''Responses may only be constructed with status codes in the range 200 to 599, inclusive.''),
                    (''target'', ''https://www.example.org/rate-limited'')])\<rparr>"
  by code_simp

text \<open>
  C2, amended. When the request reaches the header filter, the one outbound request
  carries, for every name \<open>n\<close> compared in lower case: under \<open>host\<close> exactly the host of
  the target; under \<open>connection\<close>, \<open>keep-alive\<close>, \<open>cf-connecting-ip\<close>, \<open>cf-ray\<close> and
  \<open>cf-visitor\<close> nothing; under any other name nothing when the inbound request has no
  header of that name, and otherwise exactly one value: the inbound values of that name
  in order, joined by a comma and a space, as \<open>get\<close> returns them on the inbound headers;
  only for \<open>set-cookie\<close>, which the iteration yields value by value, the last value.
\<close>

theorem outbound_headers:
  assumes "resolved P req target"
  shows "dispatched (snd (fetch P req)) = [proxy_call req target] \<and>
     values_of n (fc_headers (proxy_call req target)) =
       (if toLowerCase n = ''host'' then [host target]
        else if toLowerCase n \<in>
                  set [''connection'', ''keep-alive'', ''cf-connecting-ip'', ''cf-ray'', ''cf-visitor'']
          then []
        else if values_of n (req_headers req) = [] then []
        else if toLowerCase n = ''set-cookie'' then [last (values_of n (req_headers req))]
        else [join '', '' (values_of n (req_headers req))]) \<and>
     Headers_get n (fc_headers (proxy_call req target)) =
       (if toLowerCase n = ''host'' then Some (host target)
        else if toLowerCase n \<in>
                  set [''connection'', ''keep-alive'', ''cf-connecting-ip'', ''cf-ray'', ''cf-visitor'']
          then None
        else if toLowerCase n = ''set-cookie'' then last_value n (req_headers req)
        else Headers_get n (req_headers req))"
proof -
  have v: "values_of n (fc_headers (proxy_call req target)) =
       (if toLowerCase n = ''host'' then [host target]
        else if toLowerCase n \<in>
                  set [''connection'', ''keep-alive'', ''cf-connecting-ip'', ''cf-ray'', ''cf-visitor'']
          then []
        else if values_of n (req_headers req) = [] then []
        else if toLowerCase n = ''set-cookie'' then [last (values_of n (req_headers req))]
        else [join '', '' (values_of n (req_headers req))])"
    by (simp add: proxy_call_def values_of_proxyHeaders skipped_headers_def)
  have "Headers_get n (fc_headers (proxy_call req target)) =
       (if toLowerCase n = ''host'' then Some (host target)
        else if toLowerCase n \<in>
                  set [''connection'', ''keep-alive'', ''cf-connecting-ip'', ''cf-ray'', ''cf-visitor'']
          then None
        else if toLowerCase n = ''set-cookie'' then last_value n (req_headers req)
        else Headers_get n (req_headers req))"
    unfolding Headers_get_def [of n "fc_headers (proxy_call req target)"] v
    by (simp add: Headers_get_def last_value_def split: list.splits)
  with v dispatched_resolved [OF assms] show ?thesis by blast
qed

text \<open>The header example of the specification, with all six excluded names and a
  repeated \<open>Accept\<close>.\<close>

theorem outbound_headers_witness:
  "resolved sample_platform
     (sample_request ''GET'' ''/https://api.example.com/users/42'' ''?x=1''
        [(''Host'', ''my-proxy.workers.dev''), (''Connection'', ''keep-alive''),
         (''Keep-Alive'', ''timeout=5''), (''CF-Connecting-IP'', ''203.0.113.7''),
         (''CF-Ray'', ''8f1d''), (''CF-Visitor'', ''https''), (''X-Custom'', ''v''),
         (''Accept'', ''text/plain''), (''accept'', ''application/json'')] None)
     (https_url ''api.example.com'' ''/users/42'' ''?x=1'') \<and>
   map fc_headers (dispatched (snd (fetch sample_platform
     (sample_request ''GET'' ''/https://api.example.com/users/42'' ''?x=1''
        [(''Host'', ''my-proxy.workers.dev''), (''Connection'', ''keep-alive''),
         (''Keep-Alive'', ''timeout=5''), (''CF-Connecting-IP'', ''203.0.113.7''),
         (''CF-Ray'', ''8f1d''), (''CF-Visitor'', ''https''), (''X-Custom'', ''v''),
         (''Accept'', ''text/plain''), (''accept'', ''application/json'')] None)))) =
     [[(''accept'', ''text/plain, application/json''), (''x-custom'', ''v''),
       (''Host'', ''api.example.com'')]]"
proof -
  let ?r = "sample_request ''GET'' ''/https://api.example.com/users/42'' ''?x=1''
        [(''Host'', ''my-proxy.workers.dev''), (''Connection'', ''keep-alive''),
         (''Keep-Alive'', ''timeout=5''), (''CF-Connecting-IP'', ''203.0.113.7''),
         (''CF-Ray'', ''8f1d''), (''CF-Visitor'', ''https''), (''X-Custom'', ''v''),
         (''Accept'', ''text/plain''), (''accept'', ''application/json'')] None"
  let ?t = "https_url ''api.example.com'' ''/users/42'' ''?x=1''"
  have h: "resolved sample_platform ?r ?t" by code_simp
  have e: "fc_headers (proxy_call ?r ?t) =
      [(''accept'', ''text/plain, application/json''), (''x-custom'', ''v''),
       (''Host'', ''api.example.com'')]"
    by code_simp
  from outbound_headers [OF h, of "''Accept''"]
  have "dispatched (snd (fetch sample_platform ?r)) = [proxy_call ?r ?t]"
    by (rule conjunct1)
  with e h show ?thesis by simp
qed

text \<open>
  C2 as stated fails: for an inbound \<open>X-Custom: u\<close> followed by \<open>x-custom: v\<close> the last
  value is \<open>v\<close>, but the iteration of line 76 yields the one entry \<open>x-custom: u, v\<close>
  and that combined value is forwarded.
\<close>

theorem repeated_header_counterexample:
  "resolved sample_platform
     (sample_request ''GET'' ''/https://api.example.com/users/42'' ''?x=1''
        [(''X-Custom'', ''u''), (''x-custom'', ''v'')] None)
     (https_url ''api.example.com'' ''/users/42'' ''?x=1'') \<and>
   last_value ''X-Custom''
     (req_headers (sample_request ''GET'' ''/https://api.example.com/users/42'' ''?x=1''
        [(''X-Custom'', ''u''), (''x-custom'', ''v'')] None)) = Some ''v'' \<and>
   map (\<lambda>c. Headers_get ''X-Custom'' (fc_headers c))
     (dispatched (snd (fetch sample_platform
       (sample_request ''GET'' ''/https://api.example.com/users/42'' ''?x=1''
          [(''X-Custom'', ''u''), (''x-custom'', ''v'')] None)))) = [Some ''u, v'']"
  by code_simp

text \<open>
  C3, amended. When the request reaches the dispatcher, the one outbound request has no
  body for GET and HEAD and the inbound body, unchanged, for every other method; so it
  carries a body exactly when the method is neither GET nor HEAD and the inbound request
  has a body.
\<close>

theorem outbound_body:
  assumes "resolved P req target"
  shows "dispatched (snd (fetch P req)) = [proxy_call req target] \<and>
     fc_body (proxy_call req target) =
       (if req_method req = ''GET'' \<or> req_method req = ''HEAD'' then None else req_body req) \<and>
     (fc_body (proxy_call req target) \<noteq> None \<longleftrightarrow>
        req_method req \<noteq> ''GET'' \<and> req_method req \<noteq> ''HEAD'' \<and> req_body req \<noteq> None)"
  using dispatched_resolved [OF assms] by (simp add: proxy_call_def)

theorem outbound_body_witness:
  "resolved sample_platform
     (sample_request ''POST'' ''/https://api.example.com/users/42'' ''?x=1'' [] (Some ''key=value''))
     (https_url ''api.example.com'' ''/users/42'' ''?x=1'') \<and>
   map fc_body (dispatched (snd (fetch sample_platform
     (sample_request ''POST'' ''/https://api.example.com/users/42'' ''?x=1'' [] (Some ''key=value''))))) =
     [Some ''key=value'']"
proof -
  let ?r = "sample_request ''POST'' ''/https://api.example.com/users/42'' ''?x=1'' [] (Some ''key=value'')"
  let ?t = "https_url ''api.example.com'' ''/users/42'' ''?x=1''"
  have h: "resolved sample_platform ?r ?t" by code_simp
  have m: "req_method ?r = ''POST''" and b: "req_body ?r = Some ''key=value''"
    by (simp_all add: sample_request_def)
  from outbound_body [OF h] m b h show ?thesis by simp
qed

text \<open>
  C3 as stated fails: a POST whose \<open>req.body\<close> is \<open>null\<close> is dispatched without a body,
  although its method is neither GET nor HEAD.
\<close>

theorem bodiless_post_counterexample:
  "resolved sample_platform
     (sample_request ''POST'' ''/https://api.example.com/users/42'' ''?x=1'' [] None)
     (https_url ''api.example.com'' ''/users/42'' ''?x=1'') \<and>
   req_method (sample_request ''POST'' ''/https://api.example.com/users/42'' ''?x=1'' [] None) \<noteq> ''GET'' \<and>
   req_method (sample_request ''POST'' ''/https://api.example.com/users/42'' ''?x=1'' [] None) \<noteq> ''HEAD'' \<and>
   map fc_body (dispatched (snd (fetch sample_platform
     (sample_request ''POST'' ''/https://api.example.com/users/42'' ''?x=1'' [] None)))) = [None]"
  by code_simp

text \<open>
  C4. A request that is no preflight, whose target string is not empty and is rejected by
  the URL constructor, gets status 400 with \<open>Content-Type: application/json\<close> and
  \<open>Access-Control-Allow-Origin: *\<close>, and a body that reads as the JSON object with
  \<open>error\<close> \<open>Invalid URL\<close>, the message and the usage hint built from the origin of the
  worker; nothing is dispatched.
\<close>

theorem invalid_url_response:
  assumes "req_method req \<noteq> ''OPTIONS''" and "targetUrl req \<noteq> []"
    and "new_URL P (targetUrl req) = None"
  shows "(case fst (fetch P req) of
        Inl e \<Rightarrow> False
      | Inr r \<Rightarrow>
          status r = 400 \<and>
          headers r = [(''Content-Type'', ''application/json''), (''Access-Control-Allow-Origin'', ''*'')]) \<and>
     payload (fetch P req) =
       Some [(''error'', ''Invalid URL''),
             (''message'', ''Please provide a valid URL to proxy''),
             (''usage'', origin (url req) @ ''/https://example.com'')] \<and>
     dispatched (snd (fetch P req)) = []"
proof -
  have r: "fetch P req =
     (Inr \<lparr>status = 400, statusText = '''',
          headers = [(''Content-Type'', ''application/json''), (''Access-Control-Allow-Origin'', ''*'')],
          body = Some (JSON_stringify
                   [(''error'', ''Invalid URL''),
                    (''message'', ''Please provide a valid URL to proxy''),
                    (''usage'', origin (url req) @ ''/https://example.com'')])\<rparr>,
      [NewURL (targetUrl req)])"
    using assms by (simp add: fetch_def new_Response_json)
  show ?thesis
    by (simp add: r payload_json [where out = "fetch P req", unfolded r])
qed

text \<open>The scenario \<open>GET /not-a-url\<close> of the specification, with the bytes of the body.\<close>

theorem invalid_url_response_witness:
  \<open>req_method (sample_request ''GET'' ''/not-a-url'' '''' [] None) \<noteq> ''OPTIONS'' \<and>
   targetUrl (sample_request ''GET'' ''/not-a-url'' '''' [] None) = ''not-a-url'' \<and>
   new_URL sample_platform ''not-a-url'' = None \<and>
   payload (fetch sample_platform (sample_request ''GET'' ''/not-a-url'' '''' [] None)) =
     Some [(''error'', ''Invalid URL''),
           (''message'', ''Please provide a valid URL to proxy''),
           (''usage'', ''https://my-proxy.workers.dev/https://example.com'')] \<and>
   response_body (fetch sample_platform (sample_request ''GET'' ''/not-a-url'' '''' [] None)) =
     Some ''{"error":"Invalid URL","message":"Please provide a valid URL to proxy","usage":"https://my-proxy.workers.dev/https://example.com"}''\<close>
proof -
  let ?r = "sample_request ''GET'' ''/not-a-url'' '''' [] None"
  have h1: "req_method ?r \<noteq> ''OPTIONS''" and t: "targetUrl ?r = ''not-a-url''"
    and h3: "new_URL sample_platform ''not-a-url'' = None"
    and o: "origin (url ?r) = ''https://my-proxy.workers.dev''"
    by code_simp+
  have h2: "targetUrl ?r \<noteq> []" by (simp add: t)
  have b: \<open>response_body (fetch sample_platform ?r) =
     Some ''{"error":"Invalid URL","message":"Please provide a valid URL to proxy","usage":"https://my-proxy.workers.dev/https://example.com"}''\<close>
    by code_simp
  from invalid_url_response [of ?r sample_platform, OF h1 h2] h3 t
  have "payload (fetch sample_platform ?r) =
       Some [(''error'', ''Invalid URL''),
             (''message'', ''Please provide a valid URL to proxy''),
             (''usage'', origin (url ?r) @ ''/https://example.com'')]"
    by simp
  with o h1 t h3 b show ?thesis by simp
qed

text \<open>
  C5. A request that is no preflight, whose target string parses to a URL with a protocol
  other than \<open>http:\<close> and \<open>https:\<close>, gets status 400 with the two headers and exactly
  the body shown, which reads as the JSON object with \<open>error\<close> \<open>Invalid Protocol\<close> and
  the message; nothing is dispatched.
\<close>

theorem invalid_protocol_response:
  assumes "req_method req \<noteq> ''OPTIONS''" and "targetUrl req \<noteq> []"
    and "new_URL P (targetUrl req) = Some target"
    and "protocol target \<noteq> ''http:''" and "protocol target \<noteq> ''https:''"
  shows \<open>(case fst (fetch P req) of
        Inl e \<Rightarrow> False
      | Inr r \<Rightarrow>
          status r = 400 \<and>
          headers r = [(''Content-Type'', ''application/json''), (''Access-Control-Allow-Origin'', ''*'')] \<and>
          body r =
            Some ''{"error":"Invalid Protocol","message":"Only HTTP and HTTPS protocols are supported"}'') \<and>
     payload (fetch P req) =
       Some [(''error'', ''Invalid Protocol''),
             (''message'', ''Only HTTP and HTTPS protocols are supported'')] \<and>
     dispatched (snd (fetch P req)) = []\<close>
proof -
  have r: "fetch P req =
     (Inr \<lparr>status = 400, statusText = '''',
          headers = [(''Content-Type'', ''application/json''), (''Access-Control-Allow-Origin'', ''*'')],
          body = Some (JSON_stringify
                   [(''error'', ''Invalid Protocol''),
                    (''message'', ''Only HTTP and HTTPS protocols are supported'')])\<rparr>,
      [NewURL (targetUrl req)])"
    using assms by (simp add: fetch_def new_Response_json)
  show ?thesis
    by (simp add: r payload_json [where out = "fetch P req", unfolded r])
       (simp only: invalid_protocol_bytes)
qed

theorem invalid_protocol_response_witness:
  \<open>req_method (sample_request ''GET'' ''/ftp://example.com/file.txt'' '''' [] None) \<noteq> ''OPTIONS'' \<and>
   targetUrl (sample_request ''GET'' ''/ftp://example.com/file.txt'' '''' [] None) = ''ftp://example.com/file.txt'' \<and>
   map_option protocol (new_URL sample_platform ''ftp://example.com/file.txt'') = Some ''ftp:'' \<and>
   response_body (fetch sample_platform
       (sample_request ''GET'' ''/ftp://example.com/file.txt'' '''' [] None)) =
     Some ''{"error":"Invalid Protocol","message":"Only HTTP and HTTPS protocols are supported"}'' \<and>
   dispatched (snd (fetch sample_platform
       (sample_request ''GET'' ''/ftp://example.com/file.txt'' '''' [] None))) = []\<close>
proof -
  let ?r = "sample_request ''GET'' ''/ftp://example.com/file.txt'' '''' [] None"
  let ?ftp = "\<lparr>href = ''ftp://example.com/file.txt'', origin = ''ftp://example.com'',
              protocol = ''ftp:'', host = ''example.com'',
              pathname = ''/file.txt'', search = ''''\<rparr>"
  have h1: "req_method ?r \<noteq> ''OPTIONS''" and t: "targetUrl ?r = ''ftp://example.com/file.txt''"
    and h3: "new_URL sample_platform ''ftp://example.com/file.txt'' = Some ?ftp"
    by code_simp+
  have h2: "targetUrl ?r \<noteq> []" and h3': "new_URL sample_platform (targetUrl ?r) = Some ?ftp"
    and h4: "protocol ?ftp \<noteq> ''http:''" and h5: "protocol ?ftp \<noteq> ''https:''"
    by (simp_all add: t h3)
  from invalid_protocol_response [OF h1 h2 h3' h4 h5] h1 t h3
  show ?thesis
    by (cases "fst (fetch sample_platform ?r)") (simp_all add: response_body_def)
qed

text \<open>
  C6. When the outbound \<open>fetch\<close> of a resolved request rejects with an error of message
  \<open>m\<close>, the handler returns a response, not an exception: status 502 with the two
  headers, and a body that reads as the JSON object with \<open>error\<close> \<open>Proxy Error\<close>, the
  message \<open>m\<close> and the href of the target.
\<close>

theorem dispatch_failure_response:
  assumes "resolved P req target"
    and "global_fetch P (proxy_call req target) = Inl (ErrorInstance m)"
  shows "(case fst (fetch P req) of
        Inl e \<Rightarrow> False
      | Inr r \<Rightarrow>
          status r = 502 \<and>
          headers r = [(''Content-Type'', ''application/json''), (''Access-Control-Allow-Origin'', ''*'')]) \<and>
     payload (fetch P req) =
       Some [(''error'', ''Proxy Error''), (''message'', m), (''target'', href target)]"
proof -
  have r: "fst (fetch P req) =
     Inr \<lparr>status = 502, statusText = '''',
          headers = [(''Content-Type'', ''application/json''), (''Access-Control-Allow-Origin'', ''*'')],
          body = Some (JSON_stringify
                   [(''error'', ''Proxy Error''), (''message'', m), (''target'', href target)])\<rparr>"
    by (simp add: fetch_resolved [OF assms(1)] try_block_rejected [OF assms(2)] new_Response_json)
  show ?thesis
    using payload_json [OF r] by (simp add: r)
qed

text \<open>The scenario of an unreachable host, with the bytes of the body.\<close>

theorem dispatch_failure_response_witness:
  \<open>resolved sample_platform (sample_request ''GET'' ''/https://unreachable.invalid/'' '''' [] None)
     (https_url ''unreachable.invalid'' ''/'' '''') \<and>
   global_fetch sample_platform
     (proxy_call (sample_request ''GET'' ''/https://unreachable.invalid/'' '''' [] None)
        (https_url ''unreachable.invalid'' ''/'' '''')) =
     Inl (ErrorInstance ''Network connection lost.'') \<and>
   payload (fetch sample_platform (sample_request ''GET'' ''/https://unreachable.invalid/'' '''' [] None)) =
     Some [(''error'', ''Proxy Error''), (''message'', ''Network connection lost.''),
           (''target'', ''https://unreachable.invalid/'')] \<and>
   response_body (fetch sample_platform (sample_request ''GET'' ''/https://unreachable.invalid/'' '''' [] None)) =
     Some ''{"error":"Proxy Error","message":"Network connection lost.","target":"https://unreachable.invalid/"}''\<close>
proof -
  let ?r = "sample_request ''GET'' ''/https://unreachable.invalid/'' '''' [] None"
  let ?t = "https_url ''unreachable.invalid'' ''/'' ''''"
  have h1: "resolved sample_platform ?r ?t"
    and h2: "global_fetch sample_platform (proxy_call ?r ?t) =
       Inl (ErrorInstance ''Network connection lost.'')"
    and t: "href ?t = ''https://unreachable.invalid/''"
    by code_simp+
  have b: \<open>response_body (fetch sample_platform ?r) =
     Some ''{"error":"Proxy Error","message":"Network connection lost.","target":"https://unreachable.invalid/"}''\<close>
    by code_simp
  from dispatch_failure_response [OF h1 h2]
  have "payload (fetch sample_platform ?r) =
       Some [(''error'', ''Proxy Error''), (''message'', ''Network connection lost.''),
             (''target'', href ?t)]"
    by (rule conjunct2)
  with t h1 h2 b show ?thesis by simp
qed

text \<open>
  C7. A request with the method OPTIONS gets status 200, no body, and the three CORS
  headers with \<open>Access-Control-Max-Age: 86400\<close>; the run calls neither the URL
  constructor on a target nor \<open>fetch\<close>.
\<close>

theorem preflight_short_circuit:
  assumes "req_method req = ''OPTIONS''"
  shows "fetch P req =
     (Inr \<lparr>status = 200, statusText = '''',
           headers =
             [(''Access-Control-Allow-Origin'', ''*''),
              (''Access-Control-Allow-Methods'', ''GET, POST, PUT, DELETE, PATCH, OPTIONS''),
              (''Access-Control-Allow-Headers'', ''*''),
              (''Access-Control-Max-Age'', ''86400'')],
           body = None\<rparr>,
      [])"
  using assms by (simp add: fetch_def new_Response_def)

theorem preflight_short_circuit_witness:
  "req_method (sample_request ''OPTIONS'' ''/https://api.example.com/users/42'' ''?x=1'' [] None) = ''OPTIONS'' \<and>
   fetch sample_platform (sample_request ''OPTIONS'' ''/https://api.example.com/users/42'' ''?x=1'' [] None) =
     (Inr \<lparr>status = 200, statusText = '''',
           headers =
             [(''Access-Control-Allow-Origin'', ''*''),
              (''Access-Control-Allow-Methods'', ''GET, POST, PUT, DELETE, PATCH, OPTIONS''),
              (''Access-Control-Allow-Headers'', ''*''),
              (''Access-Control-Max-Age'', ''86400'')],
           body = None\<rparr>,
      [])"
  using preflight_short_circuit [of "sample_request ''OPTIONS'' ''/https://api.example.com/users/42'' ''?x=1'' [] None" sample_platform]
  by (simp add: sample_request_def)

text \<open>
  C8, amended. A request that is no preflight, with the path \<open>/\<close> and an empty query
  (\<open>url.search\<close> is the empty string), gets exactly status 200,
  \<open>Content-Type: text/plain; charset=utf-8\<close> and the body \<open>Hello World\<close>, and the run
  makes no platform call.
\<close>

theorem root_greeting:
  assumes "req_method req \<noteq> ''OPTIONS''" and "pathname (url req) = ''/''" and "search (url req) = ''''"
  shows "fetch P req =
     (Inr \<lparr>status = 200, statusText = '''',
           headers = [(''Content-Type'', ''text/plain; charset=utf-8'')],
           body = Some ''Hello World''\<rparr>,
      [])"
  using assms by (simp add: fetch_def targetUrl_def new_Response_def values_of_def string_defs)

theorem root_greeting_witness:
  "req_method (sample_request ''GET'' ''/'' '''' [] None) \<noteq> ''OPTIONS'' \<and>
   pathname (url (sample_request ''GET'' ''/'' '''' [] None)) = ''/'' \<and>
   search (url (sample_request ''GET'' ''/'' '''' [] None)) = '''' \<and>
   fetch sample_platform (sample_request ''GET'' ''/'' '''' [] None) =
     (Inr \<lparr>status = 200, statusText = '''',
           headers = [(''Content-Type'', ''text/plain; charset=utf-8'')],
           body = Some ''Hello World''\<rparr>,
      [])"
  using root_greeting [of "sample_request ''GET'' ''/'' '''' [] None" sample_platform]
  by (simp add: sample_request_def worker_url_def)

text \<open>
  C8 as stated fails: for \<open>GET /?x=1\<close> the target string is \<open>?x=1\<close>, which is not
  empty; the URL constructor rejects it and the answer is the 400 of an invalid URL.
\<close>

theorem root_with_query_counterexample:
  "req_method (sample_request ''GET'' ''/'' ''?x=1'' [] None) \<noteq> ''OPTIONS'' \<and>
   pathname (url (sample_request ''GET'' ''/'' ''?x=1'' [] None)) = ''/'' \<and>
   fst (fetch sample_platform (sample_request ''GET'' ''/'' ''?x=1'' [] None)) =
     Inr \<lparr>status = 400, statusText = '''',
          headers = [(''Content-Type'', ''application/json''), (''Access-Control-Allow-Origin'', ''*'')],
          body = Some (JSON_stringify
                   [(''error'', ''Invalid URL''),
                    (''message'', ''Please provide a valid URL to proxy''),
                    (''usage'', ''https://my-proxy.workers.dev/https://example.com'')])\<rparr> \<and>
   fst (fetch sample_platform (sample_request ''GET'' ''/'' ''?x=1'' [] None)) \<noteq>
     Inr \<lparr>status = 200, statusText = '''',
          headers = [(''Content-Type'', ''text/plain; charset=utf-8'')],
          body = Some ''Hello World''\<rparr>"
  by (simp add: fetch_def sample_defs new_Response_json)

text \<open>
  C9, amended. The body of each error response reads as a JSON object with \<open>error\<close> and
  \<open>message\<close>; the object of an invalid URL has the usage hint in addition, the object of
  a proxy error has the target URL in addition, and the object of an invalid protocol
  has nothing else: no usage hint and no target.
\<close>

theorem error_payload_fields:
  assumes "req_method req \<noteq> ''OPTIONS''" and "targetUrl req \<noteq> []"
  shows "(new_URL P (targetUrl req) = None \<longrightarrow>
        payload (fetch P req) =
          Some [(''error'', ''Invalid URL''),
                (''message'', ''Please provide a valid URL to proxy''),
                (''usage'', origin (url req) @ ''/https://example.com'')] \<and>
        carries_context_field (fetch P req)) \<and>
     (new_URL P (targetUrl req) = Some target \<and>
      protocol target \<noteq> ''http:'' \<and> protocol target \<noteq> ''https:'' \<longrightarrow>
        payload (fetch P req) =
          Some [(''error'', ''Invalid Protocol''),
                (''message'', ''Only HTTP and HTTPS protocols are supported'')] \<and>
        \<not> carries_context_field (fetch P req)) \<and>
     (new_URL P (targetUrl req) = Some target \<and>
      (protocol target = ''http:'' \<or> protocol target = ''https:'') \<and>
      fst (try_block P req target) = Inl e \<longrightarrow>
        payload (fetch P req) =
          Some [(''error'', ''Proxy Error''),
                (''message'', error_message e),
                (''target'', href target)] \<and>
        carries_context_field (fetch P req))"
proof (intro conjI impI)
  assume "new_URL P (targetUrl req) = None"
  with assms have "fst (fetch P req) =
     Inr \<lparr>status = 400, statusText = '''',
          headers = [(''Content-Type'', ''application/json''), (''Access-Control-Allow-Origin'', ''*'')],
          body = Some (JSON_stringify
                   [(''error'', ''Invalid URL''),
                    (''message'', ''Please provide a valid URL to proxy''),
                    (''usage'', origin (url req) @ ''/https://example.com'')])\<rparr>"
    by (simp add: fetch_def new_Response_json)
  then have p: "payload (fetch P req) =
          Some [(''error'', ''Invalid URL''),
                (''message'', ''Please provide a valid URL to proxy''),
                (''usage'', origin (url req) @ ''/https://example.com'')]"
    by (rule payload_json) simp
  show "payload (fetch P req) =
          Some [(''error'', ''Invalid URL''),
                (''message'', ''Please provide a valid URL to proxy''),
                (''usage'', origin (url req) @ ''/https://example.com'')]"
    by (rule p)
  show "carries_context_field (fetch P req)"
    by (simp add: carries_context_field_def p has_context_field_def)
next
  assume "new_URL P (targetUrl req) = Some target \<and>
      protocol target \<noteq> ''http:'' \<and> protocol target \<noteq> ''https:''"
  with assms have "fst (fetch P req) =
     Inr \<lparr>status = 400, statusText = '''',
          headers = [(''Content-Type'', ''application/json''), (''Access-Control-Allow-Origin'', ''*'')],
          body = Some (JSON_stringify
                   [(''error'', ''Invalid Protocol''),
                    (''message'', ''Only HTTP and HTTPS protocols are supported'')])\<rparr>"
    by (simp add: fetch_def new_Response_json)
  then have p: "payload (fetch P req) =
          Some [(''error'', ''Invalid Protocol''),
                (''message'', ''Only HTTP and HTTPS protocols are supported'')]"
    by (rule payload_json) simp
  show "payload (fetch P req) =
          Some [(''error'', ''Invalid Protocol''),
                (''message'', ''Only HTTP and HTTPS protocols are supported'')]"
    by (rule p)
  show "\<not> carries_context_field (fetch P req)"
    by (simp add: carries_context_field_def p has_context_field_def)
next
  assume a: "new_URL P (targetUrl req) = Some target \<and>
      (protocol target = ''http:'' \<or> protocol target = ''https:'') \<and>
      fst (try_block P req target) = Inl e"
  with assms have r: "resolved P req target" by (simp add: resolved_def)
  obtain fx where "try_block P req target = (Inl e, fx)"
    using a by (cases "try_block P req target") simp
  then have "fst (fetch P req) =
     Inr \<lparr>status = 502, statusText = '''',
          headers = [(''Content-Type'', ''application/json''), (''Access-Control-Allow-Origin'', ''*'')],
          body = Some (JSON_stringify
                   [(''error'', ''Proxy Error''),
                    (''message'', error_message e),
                    (''target'', href target)])\<rparr>"
    by (simp add: fetch_resolved [OF r] new_Response_json)
  then have p: "payload (fetch P req) =
          Some [(''error'', ''Proxy Error''),
                (''message'', error_message e),
                (''target'', href target)]"
    by (rule payload_json) simp
  show "payload (fetch P req) =
          Some [(''error'', ''Proxy Error''),
                (''message'', error_message e),
                (''target'', href target)]"
    by (rule p)
  show "carries_context_field (fetch P req)"
    by (simp add: carries_context_field_def p has_context_field_def)
qed

theorem error_payload_fields_witness:
  "payload (fetch sample_platform (sample_request ''GET'' ''/not-a-url'' '''' [] None)) =
     Some [(''error'', ''Invalid URL''),
           (''message'', ''Please provide a valid URL to proxy''),
           (''usage'', ''https://my-proxy.workers.dev/https://example.com'')] \<and>
   payload (fetch sample_platform
       (sample_request ''GET'' ''/ftp://example.com/file.txt'' '''' [] None)) =
     Some [(''error'', ''Invalid Protocol''),
           (''message'', ''Only HTTP and HTTPS protocols are supported'')] \<and>
   \<not> carries_context_field (fetch sample_platform
       (sample_request ''GET'' ''/ftp://example.com/file.txt'' '''' [] None)) \<and>
   payload (fetch sample_platform
       (sample_request ''GET'' ''/https://unreachable.invalid/'' '''' [] None)) =
     Some [(''error'', ''Proxy Error''),
           (''message'', ''Network connection lost.''),
           (''target'', ''https://unreachable.invalid/'')]"
proof -
  let ?a = "sample_request ''GET'' ''/not-a-url'' '''' [] None"
  let ?b = "sample_request ''GET'' ''/ftp://example.com/file.txt'' '''' [] None"
  let ?c = "sample_request ''GET'' ''/https://unreachable.invalid/'' '''' [] None"
  let ?ftp = "\<lparr>href = ''ftp://example.com/file.txt'', origin = ''ftp://example.com'',
              protocol = ''ftp:'', host = ''example.com'',
              pathname = ''/file.txt'', search = ''''\<rparr>"
  let ?t = "https_url ''unreachable.invalid'' ''/'' ''''"
  have a: "req_method ?a \<noteq> ''OPTIONS''" "targetUrl ?a \<noteq> []"
      "new_URL sample_platform (targetUrl ?a) = None"
      "origin (url ?a) = ''https://my-proxy.workers.dev''"
    by code_simp+
  have b: "req_method ?b \<noteq> ''OPTIONS''" "targetUrl ?b \<noteq> []"
      "new_URL sample_platform (targetUrl ?b) = Some ?ftp \<and>
       protocol ?ftp \<noteq> ''http:'' \<and> protocol ?ftp \<noteq> ''https:''"
    by code_simp+
  have c: "req_method ?c \<noteq> ''OPTIONS''" "targetUrl ?c \<noteq> []"
      "new_URL sample_platform (targetUrl ?c) = Some ?t \<and>
       (protocol ?t = ''http:'' \<or> protocol ?t = ''https:'') \<and>
       fst (try_block sample_platform ?c ?t) = Inl (ErrorInstance ''Network connection lost.'')"
      "href ?t = ''https://unreachable.invalid/''"
    by code_simp+
  from error_payload_fields [OF a(1,2), of sample_platform] a(3,4)
  have 1: "payload (fetch sample_platform ?a) =
     Some [(''error'', ''Invalid URL''),
           (''message'', ''Please provide a valid URL to proxy''),
           (''usage'', ''https://my-proxy.workers.dev/https://example.com'')]"
    by simp
  from error_payload_fields [OF b(1,2), of sample_platform ?ftp] b(3)
  have 2: "payload (fetch sample_platform ?b) =
     Some [(''error'', ''Invalid Protocol''),
           (''message'', ''Only HTTP and HTTPS protocols are supported'')] \<and>
     \<not> carries_context_field (fetch sample_platform ?b)"
    by blast
  from error_payload_fields [OF c(1,2), of sample_platform ?t "ErrorInstance ''Network connection lost.''"] c(3)
  have "payload (fetch sample_platform ?c) =
     Some [(''error'', ''Proxy Error''),
           (''message'', error_message (ErrorInstance ''Network connection lost.'')),
           (''target'', href ?t)]"
    by blast
  with c(4) have 3: "payload (fetch sample_platform ?c) =
     Some [(''error'', ''Proxy Error''),
           (''message'', ''Network connection lost.''),
           (''target'', ''https://unreachable.invalid/'')]"
    by simp
  from 1 2 3 show ?thesis by blast
qed

text \<open>
  C9 as stated fails: the body of the invalid-protocol response, read as JSON, has
  neither a usage hint nor a target URL.
\<close>

theorem invalid_protocol_payload_counterexample:
  \<open>response_body (fetch sample_platform
       (sample_request ''GET'' ''/ftp://example.com/file.txt'' '''' [] None)) =
     Some ''{"error":"Invalid Protocol","message":"Only HTTP and HTTPS protocols are supported"}'' \<and>
   payload (fetch sample_platform
       (sample_request ''GET'' ''/ftp://example.com/file.txt'' '''' [] None)) =
     Some [(''error'', ''Invalid Protocol''),
           (''message'', ''Only HTTP and HTTPS protocols are supported'')] \<and>
   \<not> carries_context_field (fetch sample_platform
       (sample_request ''GET'' ''/ftp://example.com/file.txt'' '''' [] None))\<close>
  by code_simp

text \<open>
  C10. The greeting of the root case has \<open>Content-Type: text/plain; charset=utf-8\<close> as
  its only header: no \<open>Access-Control-Allow-Origin\<close>, and none of the other CORS and
  diagnostic headers of the other branches.
\<close>

theorem greeting_only_content_type:
  assumes "req_method req \<noteq> ''OPTIONS''" and "targetUrl req = []"
  shows "(case fst (fetch P req) of
       Inl e \<Rightarrow> False
     | Inr r \<Rightarrow>
         headers r = [(''Content-Type'', ''text/plain; charset=utf-8'')] \<and>
         Headers_get ''Access-Control-Allow-Origin'' (headers r) = None \<and>
         Headers_get ''Access-Control-Allow-Methods'' (headers r) = None \<and>
         Headers_get ''Access-Control-Allow-Headers'' (headers r) = None \<and>
         Headers_get ''Access-Control-Max-Age'' (headers r) = None \<and>
         Headers_get ''X-Proxied-By'' (headers r) = None \<and>
         Headers_get ''X-Target-URL'' (headers r) = None)"
proof -
  have "fst (fetch P req) =
      Inr \<lparr>status = 200, statusText = '''',
           headers = [(''Content-Type'', ''text/plain; charset=utf-8'')],
           body = Some ''Hello World''\<rparr>"
    using assms by (simp add: fetch_def new_Response_def values_of_def string_defs)
  moreover have
    "Headers_get ''Access-Control-Allow-Origin'' [(''Content-Type'', ''text/plain; charset=utf-8'')] = None"
    "Headers_get ''Access-Control-Allow-Methods'' [(''Content-Type'', ''text/plain; charset=utf-8'')] = None"
    "Headers_get ''Access-Control-Allow-Headers'' [(''Content-Type'', ''text/plain; charset=utf-8'')] = None"
    "Headers_get ''Access-Control-Max-Age'' [(''Content-Type'', ''text/plain; charset=utf-8'')] = None"
    "Headers_get ''X-Proxied-By'' [(''Content-Type'', ''text/plain; charset=utf-8'')] = None"
    "Headers_get ''X-Target-URL'' [(''Content-Type'', ''text/plain; charset=utf-8'')] = None"
    by code_simp+
  ultimately show ?thesis by simp
qed

theorem greeting_only_content_type_witness:
  "req_method (sample_request ''GET'' ''/'' '''' [] None) \<noteq> ''OPTIONS'' \<and>
   targetUrl (sample_request ''GET'' ''/'' '''' [] None) = [] \<and>
   map_sum id headers (fst (fetch sample_platform (sample_request ''GET'' ''/'' '''' [] None))) =
     Inr [(''Content-Type'', ''text/plain; charset=utf-8'')]"
proof -
  let ?r = "sample_request ''GET'' ''/'' '''' [] None"
  have h1: "req_method ?r \<noteq> ''OPTIONS''" and h2: "targetUrl ?r = []" by code_simp+
  from greeting_only_content_type [OF h1 h2, of sample_platform] h1 h2
  show ?thesis by (cases "fst (fetch sample_platform ?r)") simp_all
qed

end
